theory Spec2Isabelle
  imports Complex_Main
begin

section \<open>Data model\<close>

text \<open>
  Row identifiers are opaque strings generated by the database; the model draws them
  from a counter kept in the store. Timestamps are milliseconds since the epoch, the
  value of \<^verbatim>\<open>Date.now()\<close> and of \<^verbatim>\<open>Date.getTime()\<close>.
\<close>

type_synonym ident = nat
type_synonym timestamp = nat

datatype json =
    JNull
  | JBool bool
  | JNum int
  | JStr string
  | JArr "json list"
  | JObj "(string \<times> json) list"

datatype WebhookStatus = RECEIVED | PROCESSED | FAILED

datatype SubscriptionStatus = ACTIVE | CANCELLED | EXPIRED | PENDING

datatype PaymentStatus = COMPLETED

text \<open>
  \<^verbatim>\<open>WebhookPayloadDto\<close> (webhooks/dto/webhook-payload.dto.ts). The amount is a
  JavaScript number, taken as the real number it denotes: the DTO asks for a number that
  is at least 0 (\<^verbatim>\<open>@IsNumber() @Min(0)\<close>) and nowhere for an integer, so 0.5 and 999.5
  are amounts the service receives. It is always finite: JSON carries no NaN and no
  Infinity, and \<^verbatim>\<open>@IsNumber()\<close> refuses both.
\<close>

record WebhookPayloadDto =
  externalPaymentId :: string
  eventType :: string
  email :: "string option"
  amount :: real
  currency :: string
  planType :: string
  paymentMethod :: "string option"
  provider :: "string option"
  metadata :: "json option"

text \<open>\<^verbatim>\<open>IWebhookProcessingResult\<close> and \<^verbatim>\<open>IWebhookResponse\<close> (webhook.interface.ts).\<close>

record IWebhookProcessingResult =
  success :: bool
  isDuplicate :: bool
  paymentId :: "ident option"
  subscriptionId :: "ident option"
  error :: "string option"

record IWebhookResponse =
  resp_status :: nat
  resp_message :: string
  resp_webhookEventId :: "ident option"
  resp_paymentId :: "ident option"

text \<open>The exceptions the code throws or receives from its libraries.\<close>

datatype exn =
    UnauthorizedException string
  | BadRequestException string
  | RangeError string
  | TypeError string
  | PrismaClientKnownRequestError string
  | Error string

subsection \<open>The rows of the four tables\<close>

record webhook_event =
  we_id :: ident
  we_external_payment_id :: string
  we_event_type :: string
  we_status :: WebhookStatus
  we_payload :: WebhookPayloadDto
  we_processed_at :: "timestamp option"

record user =
  usr_id :: ident
  usr_email :: string

record payment =
  pay_id :: ident
  pay_user_id :: ident
  pay_external_payment_id :: string
  pay_amount :: real
  pay_currency :: string
  pay_plan_type :: string
  pay_payment_method :: "string option"
  pay_provider :: "string option"
  pay_status :: PaymentStatus
  pay_metadata :: "json option"

record subscription =
  sub_id :: ident
  sub_user_id :: ident
  sub_plan_type :: string
  sub_status :: SubscriptionStatus
  sub_started_at :: timestamp
  sub_expires_at :: "timestamp option"

record store =
  webhookEvents :: "webhook_event list"
  users :: "user list"
  payments :: "payment list"
  subscriptions :: "subscription list"
  next_id :: ident

section \<open>The store\<close>

text \<open>
  Every database call can fail for a reason of the store's own (connection lost,
  a write that collides with a concurrent request). The model takes these failures
  as a parameter: \<open>fl op = Some e\<close> makes the call \<open>op\<close> of this request throw \<open>e\<close>.
  Each call below is made at most once per request.
\<close>

datatype db_op =
    WebhookEventFindUnique
  | WebhookEventCreate
  | WebhookEventUpdate
  | UserFindUnique
  | UserCreate
  | PaymentCreate
  | PaymentFindUnique
  | SubscriptionFindUnique
  | SubscriptionUpsert
  | TransactionCommit

type_synonym faults = "db_op \<Rightarrow> exn option"

definition no_faults :: faults where
  "no_faults = (\<lambda>_. None)"

definition P2002 :: exn where
  "P2002 = PrismaClientKnownRequestError ''P2002''"

definition P2025 :: exn where
  "P2025 = PrismaClientKnownRequestError ''P2025''"

text \<open>
  Modelled from the spec: the persistence layer (DatabaseService, the Prisma client and
  its schema) is not among the sources. The operations follow the store contract of the
  specification: rows are looked up by their unique keys; a create that would break a
  uniqueness constraint, (external_payment_id, event_type) on events, email on users,
  external_payment_id on payments, fails with the unique-constraint error P2002; an
  update of a missing row fails with P2025; an upsert is keyed by (user_id, plan_type).
\<close>

definition webhookEvent_findUnique ::
  "faults \<Rightarrow> store \<Rightarrow> string \<Rightarrow> string \<Rightarrow> exn + webhook_event option" where
  "webhookEvent_findUnique fl st ext ty =
     (case fl WebhookEventFindUnique of
        Some e \<Rightarrow> Inl e
      | None \<Rightarrow> Inr (find (\<lambda>r. we_external_payment_id r = ext \<and> we_event_type r = ty)
                         (webhookEvents st)))"

definition webhookEvent_create ::
  "faults \<Rightarrow> store \<Rightarrow> string \<Rightarrow> string \<Rightarrow> WebhookStatus \<Rightarrow> WebhookPayloadDto
     \<Rightarrow> (exn + webhook_event) \<times> store" where
  "webhookEvent_create fl st ext ty s pl =
     (case fl WebhookEventCreate of
        Some e \<Rightarrow> (Inl e, st)
      | None \<Rightarrow>
          (case find (\<lambda>r. we_external_payment_id r = ext \<and> we_event_type r = ty)
                  (webhookEvents st) of
             Some _ \<Rightarrow> (Inl P2002, st)
           | None \<Rightarrow>
               (let row = \<lparr>we_id = next_id st, we_external_payment_id = ext,
                           we_event_type = ty, we_status = s, we_payload = pl,
                           we_processed_at = None\<rparr>
                in (Inr row, st\<lparr>webhookEvents := webhookEvents st @ [row],
                                next_id := Suc (next_id st)\<rparr>))))"

definition set_processed :: "ident \<Rightarrow> WebhookStatus \<Rightarrow> timestamp \<Rightarrow> webhook_event \<Rightarrow> webhook_event" where
  "set_processed i s t r =
     (if we_id r = i then r\<lparr>we_status := s, we_processed_at := Some t\<rparr> else r)"

definition webhookEvent_update ::
  "faults \<Rightarrow> store \<Rightarrow> ident \<Rightarrow> WebhookStatus \<Rightarrow> timestamp \<Rightarrow> (exn + unit) \<times> store" where
  "webhookEvent_update fl st i s t =
     (case fl WebhookEventUpdate of
        Some e \<Rightarrow> (Inl e, st)
      | None \<Rightarrow>
          (case find (\<lambda>r. we_id r = i) (webhookEvents st) of
             None \<Rightarrow> (Inl P2025, st)
           | Some _ \<Rightarrow>
               (Inr (), st\<lparr>webhookEvents := map (set_processed i s t) (webhookEvents st)\<rparr>)))"

definition user_findUnique :: "faults \<Rightarrow> store \<Rightarrow> string \<Rightarrow> exn + user option" where
  "user_findUnique fl st em =
     (case fl UserFindUnique of
        Some e \<Rightarrow> Inl e
      | None \<Rightarrow> Inr (find (\<lambda>u. usr_email u = em) (users st)))"

definition user_create :: "faults \<Rightarrow> store \<Rightarrow> string \<Rightarrow> (exn + user) \<times> store" where
  "user_create fl st em =
     (case fl UserCreate of
        Some e \<Rightarrow> (Inl e, st)
      | None \<Rightarrow>
          (case find (\<lambda>u. usr_email u = em) (users st) of
             Some _ \<Rightarrow> (Inl P2002, st)
           | None \<Rightarrow>
               (let row = \<lparr>usr_id = next_id st, usr_email = em\<rparr>
                in (Inr row, st\<lparr>users := users st @ [row], next_id := Suc (next_id st)\<rparr>))))"

definition payment_create ::
  "faults \<Rightarrow> store \<Rightarrow> ident \<Rightarrow> WebhookPayloadDto \<Rightarrow> (exn + payment) \<times> store" where
  "payment_create fl st uid p =
     (case fl PaymentCreate of
        Some e \<Rightarrow> (Inl e, st)
      | None \<Rightarrow>
          (case find (\<lambda>r. pay_external_payment_id r = externalPaymentId p) (payments st) of
             Some _ \<Rightarrow> (Inl P2002, st)
           | None \<Rightarrow>
               (let row = \<lparr>pay_id = next_id st, pay_user_id = uid,
                           pay_external_payment_id = externalPaymentId p,
                           pay_amount = amount p, pay_currency = currency p,
                           pay_plan_type = planType p,
                           pay_payment_method = paymentMethod p,
                           pay_provider = provider p, pay_status = COMPLETED,
                           pay_metadata = metadata p\<rparr>
                in (Inr row, st\<lparr>payments := payments st @ [row],
                                next_id := Suc (next_id st)\<rparr>))))"

definition payment_findUnique :: "faults \<Rightarrow> store \<Rightarrow> string \<Rightarrow> exn + payment option" where
  "payment_findUnique fl st ext =
     (case fl PaymentFindUnique of
        Some e \<Rightarrow> Inl e
      | None \<Rightarrow> Inr (find (\<lambda>r. pay_external_payment_id r = ext) (payments st)))"

definition subscription_findUnique ::
  "faults \<Rightarrow> store \<Rightarrow> ident \<Rightarrow> string \<Rightarrow> exn + subscription option" where
  "subscription_findUnique fl st uid plan =
     (case fl SubscriptionFindUnique of
        Some e \<Rightarrow> Inl e
      | None \<Rightarrow> Inr (find (\<lambda>s. sub_user_id s = uid \<and> sub_plan_type s = plan)
                         (subscriptions st)))"

text \<open>
  Modelled from the spec: the upsert on the key (user_id, plan_type). It takes the
  started_at and expires_at of the row to create (whose status is ACTIVE in every call
  of the code) and the status and expires_at its update branch sets.
\<close>

definition set_sub :: "ident \<Rightarrow> string \<Rightarrow> SubscriptionStatus \<Rightarrow> timestamp \<Rightarrow> subscription \<Rightarrow> subscription" where
  "set_sub uid plan s ex r =
     (if sub_user_id r = uid \<and> sub_plan_type r = plan
      then r\<lparr>sub_status := s, sub_expires_at := Some ex\<rparr> else r)"

definition subscription_upsert ::
  "faults \<Rightarrow> store \<Rightarrow> ident \<Rightarrow> string \<Rightarrow> timestamp \<Rightarrow> timestamp
     \<Rightarrow> SubscriptionStatus \<Rightarrow> timestamp \<Rightarrow> (exn + subscription) \<times> store" where
  "subscription_upsert fl st uid plan c_started c_expires u_status u_expires =
     (case fl SubscriptionUpsert of
        Some e \<Rightarrow> (Inl e, st)
      | None \<Rightarrow>
          (case find (\<lambda>s. sub_user_id s = uid \<and> sub_plan_type s = plan) (subscriptions st) of
             Some r \<Rightarrow>
               (Inr (set_sub uid plan u_status u_expires r),
                st\<lparr>subscriptions := map (set_sub uid plan u_status u_expires) (subscriptions st)\<rparr>)
           | None \<Rightarrow>
               (let row = \<lparr>sub_id = next_id st, sub_user_id = uid, sub_plan_type = plan,
                           sub_status = ACTIVE, sub_started_at = c_started,
                           sub_expires_at = Some c_expires\<rparr>
                in (Inr row, st\<lparr>subscriptions := subscriptions st @ [row],
                                next_id := Suc (next_id st)\<rparr>))))"

text \<open>
  Modelled from the spec: \<^verbatim>\<open>$transaction\<close> of the persistence layer, a unit of work
  with rollback on failure. It runs its callback on the store and keeps the callback's
  writes only when the callback returns and the commit succeeds; when the callback
  throws, or the commit fails, the store is the one from before the transaction.
\<close>

definition transaction ::
  "faults \<Rightarrow> store \<Rightarrow> (store \<Rightarrow> (exn + 'a) \<times> store) \<Rightarrow> (exn + 'a) \<times> store" where
  "transaction fl st body =
     (case body st of
        (Inl e, _) \<Rightarrow> (Inl e, st)
      | (Inr r, st') \<Rightarrow>
          (case fl TransactionCommit of
             Some e \<Rightarrow> (Inl e, st)
           | None \<Rightarrow> (Inr r, st')))"

section \<open>Numbers and JSON as text\<close>

text \<open>
  A non-negative integer in a template literal is printed in decimal, most significant
  digit first (exact for the integers below \<open>10^21\<close>, where JavaScript switches to
  exponent notation).
\<close>

definition digit_of :: "nat \<Rightarrow> char" where
  "digit_of d = ''0123456789'' ! d"

fun toString_nat :: "nat \<Rightarrow> string" where
  "toString_nat n =
     (if n < 10 then [digit_of n] else toString_nat (n div 10) @ [digit_of (n mod 10)])"

declare toString_nat.simps [simp del]

definition toString_int :: "int \<Rightarrow> string" where
  "toString_int i = (if i < 0 then ''-'' @ toString_nat (nat (- i)) else toString_nat (nat i))"

definition is_digit :: "char \<Rightarrow> bool" where
  "is_digit c = (c \<in> set ''0123456789'')"

text \<open>
  \<^verbatim>\<open>JSON.stringify\<close> on a value that came out of the JSON body parser: no white space,
  the members of an object in the order the object holds them, strings quoted with the
  escapes of the standard. The numbers of \<open>json\<close> are the integers, printed in full
  as JavaScript prints them below \<open>10^21\<close>; fractions and larger numbers are not among
  its values. Of \<^verbatim>\<open>undefined\<close>, which is what \<^verbatim>\<open>request.body\<close> is when no body
  was parsed, \<^verbatim>\<open>JSON.stringify\<close> returns \<^verbatim>\<open>undefined\<close>.
\<close>

definition hex_digit :: "nat \<Rightarrow> char" where
  "hex_digit d = ''0123456789abcdef'' ! d"

definition escape_char :: "char \<Rightarrow> string" where
  "escape_char c =
     (if c = CHR 0x22 then [CHR 0x5C, CHR 0x22]
      else if c = CHR 0x5C then [CHR 0x5C, CHR 0x5C]
      else if c = CHR 0x08 then [CHR 0x5C, CHR ''b'']
      else if c = CHR 0x0C then [CHR 0x5C, CHR ''f'']
      else if c = CHR 0x0A then [CHR 0x5C, CHR ''n'']
      else if c = CHR 0x0D then [CHR 0x5C, CHR ''r'']
      else if c = CHR 0x09 then [CHR 0x5C, CHR ''t'']
      else if (of_char c :: nat) < 32
        then [CHR 0x5C, CHR ''u'', CHR ''0'', CHR ''0'',
              hex_digit ((of_char c :: nat) div 16), hex_digit ((of_char c :: nat) mod 16)]
      else [c])"

definition quote :: "string \<Rightarrow> string" where
  "quote s = [CHR 0x22] @ concat (map escape_char s) @ [CHR 0x22]"

fun join :: "string \<Rightarrow> string list \<Rightarrow> string" where
  "join sep [] = []"
| "join sep [x] = x"
| "join sep (x # y # ys) = x @ sep @ join sep (y # ys)"

fun stringify :: "json \<Rightarrow> string" where
  "stringify JNull = ''null''"
| "stringify (JBool b) = (if b then ''true'' else ''false'')"
| "stringify (JNum i) = toString_int i"
| "stringify (JStr s) = quote s"
| "stringify (JArr xs) = ''['' @ join '','' (map stringify xs) @ '']''"
| "stringify (JObj kvs) =
     ''{'' @ join '','' (map (\<lambda>kv. quote (fst kv) @ '':'' @ stringify (snd kv)) kvs) @ ''}''"

definition JSON_stringify :: "json option \<Rightarrow> string option" where
  "JSON_stringify v = (case v of None \<Rightarrow> None | Some j \<Rightarrow> Some (stringify j))"

section \<open>WebhookSignatureGuard\<close>

text \<open>
  \<^verbatim>\<open>crypto.timingSafeEqual\<close> throws a RangeError when its two buffers differ in byte
  length and compares them otherwise. Strings are byte strings, as \<^verbatim>\<open>Buffer.from\<close>
  makes them.
\<close>

definition timingSafeEqual :: "string \<Rightarrow> string \<Rightarrow> exn + bool" where
  "timingSafeEqual a b =
     (if length a \<noteq> length b
      then Inl (RangeError ''Input buffers must have the same byte length'')
      else Inr (a = b))"

text \<open>
  \<^verbatim>\<open>canActivate\<close>. The keyed digest \<^verbatim>\<open>createHmac('sha256', secret).update(m).digest('hex')\<close>
  is the parameter \<open>hmac\<close>; \<open>signature\<close> is the header \<^verbatim>\<open>x-webhook-signature\<close>
  (\<open>None\<close> when the request has none) and \<open>body\<close> is \<^verbatim>\<open>request.body\<close>: the parsed
  JSON body, or \<open>None\<close> for \<^verbatim>\<open>undefined\<close> when the request came without a body the
  parser reads. The steps keep the order of the source: the body is printed first, then
  the header is checked, then the digest is computed, where \<^verbatim>\<open>update\<close> throws a
  TypeError when it is given \<^verbatim>\<open>undefined\<close>, and only then the \<^verbatim>\<open>try\<close> block
  opens. The inner \<open>case\<close> on the comparison is that \<^verbatim>\<open>try\<close> block, the one around
  it its \<^verbatim>\<open>catch\<close>.
\<close>

definition canActivate ::
  "(string \<Rightarrow> string \<Rightarrow> string) \<Rightarrow> string \<Rightarrow> string option \<Rightarrow> json option
     \<Rightarrow> exn + bool" where
  "canActivate hmac webhookSecret signature body =
     (let rawBody = JSON_stringify body in
      case signature of
        None \<Rightarrow> Inl (UnauthorizedException ''Missing webhook signature'')
      | Some sg \<Rightarrow>
          if sg = [] then Inl (UnauthorizedException ''Missing webhook signature'')
          else
            (case rawBody of
               None \<Rightarrow> Inl (TypeError ''The data argument must be of type string'')
             | Some raw \<Rightarrow>
                 (let expectedSignature = hmac webhookSecret raw in
                  case (case timingSafeEqual sg expectedSignature of
                          Inl e \<Rightarrow> Inl e
                        | Inr isValid \<Rightarrow>
                            if \<not> isValid
                            then Inl (UnauthorizedException ''Invalid webhook signature'')
                            else Inr True) of
                    Inl (UnauthorizedException m) \<Rightarrow> Inl (UnauthorizedException m)
                  | Inl _ \<Rightarrow> Inl (UnauthorizedException ''Invalid webhook signature format'')
                  | Inr b \<Rightarrow> Inr b)))"

section \<open>WebhooksService\<close>

text \<open>
  \<^verbatim>\<open>findOrCreateUser\<close>. \<^verbatim>\<open>!email\<close> holds for a missing email and for the empty
  string; \<open>now\<close> is the reading of \<^verbatim>\<open>Date.now()\<close>.
\<close>

definition placeholder_email :: "timestamp \<Rightarrow> string" where
  "placeholder_email now = ''user-'' @ toString_nat now @ ''@pending.com''"

definition effective_email :: "timestamp \<Rightarrow> string option \<Rightarrow> string" where
  "effective_email now em =
     (case em of
        None \<Rightarrow> placeholder_email now
      | Some a \<Rightarrow> if a = [] then placeholder_email now else a)"

definition findOrCreateUser ::
  "faults \<Rightarrow> timestamp \<Rightarrow> store \<Rightarrow> string option \<Rightarrow> (exn + user) \<times> store" where
  "findOrCreateUser fl now st em =
     (let email' = effective_email now em in
      case user_findUnique fl st email' of
        Inl e \<Rightarrow> (Inl e, st)
      | Inr (Some u) \<Rightarrow> (Inr u, st)
      | Inr None \<Rightarrow> user_create fl st email')"

text \<open>
  The two plan tables. A key outside the table reads as \<^verbatim>\<open>undefined\<close>, which
  \<^verbatim>\<open>||\<close> replaces by the default; the code calls both only after the plan type has
  passed the validator.
\<close>

definition planPrices :: "(string \<times> real) list" where
  "planPrices = [(''monthly'', 999), (''yearly'', 9999), (''lifetime'', 29999)]"

definition getExpectedAmountForPlan :: "string \<Rightarrow> real" where
  "getExpectedAmountForPlan plan = (case map_of planPrices plan of Some v \<Rightarrow> v | None \<Rightarrow> 0)"

definition durations :: "(string \<times> nat) list" where
  "durations = [(''monthly'', 30), (''yearly'', 365), (''lifetime'', 36500)]"

definition getSubscriptionDuration :: "string \<Rightarrow> nat" where
  "getSubscriptionDuration plan = (case map_of durations plan of Some v \<Rightarrow> v | None \<Rightarrow> 30)"

text \<open>
  \<^verbatim>\<open>validateWebhookBusinessLogic\<close> returns nothing and throws to reject; the model
  returns the lines it writes to the error log beside the outcome.
\<close>

datatype log_line =
    InvalidAmount real
  | InvalidPlanType string
  | AmountMismatch real real

definition validPlanTypes :: "string list" where
  "validPlanTypes = [''monthly'', ''yearly'', ''lifetime'']"

definition validateWebhookBusinessLogic ::
  "WebhookPayloadDto \<Rightarrow> log_line list \<times> (exn + unit)" where
  "validateWebhookBusinessLogic p =
     (if amount p \<le> 0
      then ([InvalidAmount (amount p)], Inl (BadRequestException ''Amount must be positive''))
      else if planType p \<notin> set validPlanTypes
      then ([InvalidPlanType (planType p)], Inl (BadRequestException ''Invalid plan type''))
      else
        (let expectedAmount = getExpectedAmountForPlan (planType p) in
         if \<bar>amount p - expectedAmount\<bar> > 100
         then ([AmountMismatch expectedAmount (amount p)], Inr ())
         else ([], Inr ())))"

text \<open>
  The words of the specification for an acceptable amount, ``a positive integer'', to
  set beside the test the validator makes.
\<close>

definition is_positive_integer :: "real \<Rightarrow> bool" where
  "is_positive_integer x = (0 < x \<and> of_int \<lfloor>x\<rfloor> = x)"

text \<open>
  \<^verbatim>\<open>processPaymentTransaction\<close>: the three writes go through the transaction client
  \<^verbatim>\<open>tx\<close>, here the store the callback is given. Both branches of the upsert take
  their expiry from \<^verbatim>\<open>Date.now() + durationDays * 24 * 60 * 60 * 1000\<close>.
\<close>

definition processPaymentTransaction ::
  "faults \<Rightarrow> timestamp \<Rightarrow> store \<Rightarrow> ident \<Rightarrow> ident \<Rightarrow> WebhookPayloadDto
     \<Rightarrow> (exn + ident \<times> ident) \<times> store" where
  "processPaymentTransaction fl now st webhookEventId userId p =
     transaction fl st (\<lambda>tx.
       case payment_create fl tx userId p of
         (Inl e, tx1) \<Rightarrow> (Inl e, tx1)
       | (Inr payment, tx1) \<Rightarrow>
           (let durationDays = getSubscriptionDuration (planType p) in
            case subscription_upsert fl tx1 userId (planType p)
                   now (now + durationDays * 24 * 60 * 60 * 1000)
                   ACTIVE (now + durationDays * 24 * 60 * 60 * 1000) of
              (Inl e, tx2) \<Rightarrow> (Inl e, tx2)
            | (Inr subscription, tx2) \<Rightarrow>
                (case webhookEvent_update fl tx2 webhookEventId PROCESSED now of
                   (Inl e, tx3) \<Rightarrow> (Inl e, tx3)
                 | (Inr _, tx3) \<Rightarrow> (Inr (pay_id payment, sub_id subscription), tx3))))"

definition checkIfAlreadyProcessed ::
  "faults \<Rightarrow> store \<Rightarrow> string \<Rightarrow> string \<Rightarrow> exn + webhook_event option" where
  "checkIfAlreadyProcessed fl st ext ty = webhookEvent_findUnique fl st ext ty"

text \<open>
  \<^verbatim>\<open>processWebhook\<close>. Its \<^verbatim>\<open>catch\<close> logs the error and throws it again, so an
  exception of any step is the outcome of the call; the store keeps what was written
  before the step that threw.
\<close>

definition processWebhook ::
  "faults \<Rightarrow> timestamp \<Rightarrow> store \<Rightarrow> WebhookPayloadDto
     \<Rightarrow> (exn + IWebhookProcessingResult) \<times> store" where
  "processWebhook fl now st p =
     (case checkIfAlreadyProcessed fl st (externalPaymentId p) (eventType p) of
        Inl e \<Rightarrow> (Inl e, st)
      | Inr (Some existingEvent) \<Rightarrow>
          (Inr \<lparr>success = True, isDuplicate = True, paymentId = Some (we_id existingEvent),
                subscriptionId = None, error = None\<rparr>, st)
      | Inr None \<Rightarrow>
          (case webhookEvent_create fl st (externalPaymentId p) (eventType p) RECEIVED p of
             (Inl e, st1) \<Rightarrow> (Inl e, st1)
           | (Inr webhookEvent, st1) \<Rightarrow>
               (case findOrCreateUser fl now st1 (email p) of
                  (Inl e, st2) \<Rightarrow> (Inl e, st2)
                | (Inr user, st2) \<Rightarrow>
                    (case snd (validateWebhookBusinessLogic p) of
                       Inl e \<Rightarrow> (Inl e, st2)
                     | Inr _ \<Rightarrow>
                         (case processPaymentTransaction fl now st2
                                 (we_id webhookEvent) (usr_id user) p of
                            (Inl e, st3) \<Rightarrow> (Inl e, st3)
                          | (Inr result, st3) \<Rightarrow>
                              (Inr \<lparr>success = True, isDuplicate = False,
                                    paymentId = Some (fst result),
                                    subscriptionId = Some (snd result),
                                    error = None\<rparr>, st3))))))"

section \<open>WebhooksController\<close>

definition handlePaymentWebhook ::
  "faults \<Rightarrow> timestamp \<Rightarrow> store \<Rightarrow> WebhookPayloadDto \<Rightarrow> IWebhookResponse \<times> store" where
  "handlePaymentWebhook fl now st payload =
     (case processWebhook fl now st payload of
        (Inr result, st') \<Rightarrow>
          if isDuplicate result
          then (\<lparr>resp_status = 200,
                  resp_message = ''Webhook already processed (duplicate)'',
                  resp_webhookEventId = paymentId result,
                  resp_paymentId = None\<rparr>, st')
          else (\<lparr>resp_status = 200,
                  resp_message = ''Webhook processed successfully'',
                  resp_webhookEventId = None,
                  resp_paymentId = paymentId result\<rparr>, st')
      | (Inl e, st') \<Rightarrow>
          (\<lparr>resp_status = 200,
            resp_message = ''Webhook received, processing failed (will retry internally)'',
            resp_webhookEventId = None,
            resp_paymentId = None\<rparr>, st'))"

section \<open>SubscriptionsService and PaymentsService\<close>

text \<open>
  \<^verbatim>\<open>activateOrExtendSubscription\<close>. \<^verbatim>\<open>setDate(getDate() + durationDays)\<close> moves the
  date by whole calendar days of the server's time zone; the model adds
  \<open>durationDays\<close> times 86400000 ms, which is the same instant in a zone without
  clock changes such as UTC.
\<close>

definition newExpiryDate :: "subscription option \<Rightarrow> timestamp \<Rightarrow> nat \<Rightarrow> timestamp" where
  "newExpiryDate existing now durationDays =
     (case existing of
        None \<Rightarrow> now + durationDays * 86400000
      | Some s \<Rightarrow>
          (case sub_expires_at s of
             None \<Rightarrow> now + durationDays * 86400000
           | Some ex \<Rightarrow>
               if sub_status s = ACTIVE \<and> ex > now
               then ex + durationDays * 86400000
               else now + durationDays * 86400000))"

definition activateOrExtendSubscription ::
  "faults \<Rightarrow> timestamp \<Rightarrow> store \<Rightarrow> ident \<Rightarrow> string \<Rightarrow> nat \<Rightarrow> (exn + subscription) \<times> store" where
  "activateOrExtendSubscription fl now st userId plan durationDays =
     (case subscription_findUnique fl st userId plan of
        Inl e \<Rightarrow> (Inl e, st)
      | Inr existing \<Rightarrow>
          (let ex = newExpiryDate existing now durationDays
           in subscription_upsert fl st userId plan now ex ACTIVE ex))"

text \<open>\<^verbatim>\<open>createPayment\<close>: a unique-constraint error resolves to the existing payment.\<close>

definition is_P2002 :: "exn \<Rightarrow> bool" where
  "is_P2002 e = (case e of PrismaClientKnownRequestError c \<Rightarrow> c = ''P2002'' | _ \<Rightarrow> False)"

definition createPayment ::
  "faults \<Rightarrow> store \<Rightarrow> ident \<Rightarrow> WebhookPayloadDto \<Rightarrow> (exn + payment option) \<times> store" where
  "createPayment fl st userId p =
     (case payment_create fl st userId p of
        (Inr payment, st') \<Rightarrow> (Inr (Some payment), st')
      | (Inl e, st') \<Rightarrow>
          if is_P2002 e
          then (case payment_findUnique fl st' (externalPaymentId p) of
                  Inl e' \<Rightarrow> (Inl e', st')
                | Inr r \<Rightarrow> (Inr r, st'))
          else (Inl e, st'))"

section \<open>Example requests and stores\<close>

text \<open>The payload of the service's tests, and the clock reading used in the examples.\<close>

definition validPayload :: WebhookPayloadDto where
  "validPayload = \<lparr>externalPaymentId = ''pay_ext_123'', eventType = ''payment.success'',
     email = Some ''test@example.com'', amount = 999, currency = ''USD'',
     planType = ''monthly'', paymentMethod = None, provider = None, metadata = None\<rparr>"

definition clock :: timestamp where
  "clock = 1700000000000"

definition empty_store :: store where
  "empty_store = \<lparr>webhookEvents = [], users = [], payments = [], subscriptions = [], next_id = 0\<rparr>"

text \<open>The store once the event of \<open>validPayload\<close> is recorded and its user exists.\<close>

definition store_received :: store where
  "store_received =
     \<lparr>webhookEvents = [\<lparr>we_id = 0, we_external_payment_id = ''pay_ext_123'',
                         we_event_type = ''payment.success'', we_status = RECEIVED,
                         we_payload = validPayload, we_processed_at = None\<rparr>],
      users = [\<lparr>usr_id = 1, usr_email = ''test@example.com''\<rparr>],
      payments = [], subscriptions = [], next_id = 2\<rparr>"

definition upsert_fails :: faults where
  "upsert_fails = no_faults(SubscriptionUpsert := Some (Error ''Connection lost''))"

text \<open>
  The same store when the user already holds an active monthly subscription that
  expires 15 days after \<open>clock\<close>.
\<close>

definition store_active :: store where
  "store_active =
     \<lparr>webhookEvents = [\<lparr>we_id = 0, we_external_payment_id = ''pay_ext_123'',
                         we_event_type = ''payment.success'', we_status = RECEIVED,
                         we_payload = validPayload, we_processed_at = None\<rparr>],
      users = [\<lparr>usr_id = 1, usr_email = ''test@example.com''\<rparr>],
      payments = [],
      subscriptions = [\<lparr>sub_id = 2, sub_user_id = 1, sub_plan_type = ''monthly'',
                         sub_status = ACTIVE, sub_started_at = 1698704000000,
                         sub_expires_at = Some 1701296000000\<rparr>],
      next_id = 3\<rparr>"

text \<open>The store after \<open>validPayload\<close> has been processed at \<open>clock\<close>.\<close>

definition store_processed :: store where
  "store_processed =
     \<lparr>webhookEvents = [\<lparr>we_id = 0, we_external_payment_id = ''pay_ext_123'',
                         we_event_type = ''payment.success'', we_status = PROCESSED,
                         we_payload = validPayload, we_processed_at = Some 1700000000000\<rparr>],
      users = [\<lparr>usr_id = 1, usr_email = ''test@example.com''\<rparr>],
      payments = [\<lparr>pay_id = 2, pay_user_id = 1, pay_external_payment_id = ''pay_ext_123'',
                    pay_amount = 999, pay_currency = ''USD'', pay_plan_type = ''monthly'',
                    pay_payment_method = None, pay_provider = None, pay_status = COMPLETED,
                    pay_metadata = None\<rparr>],
      subscriptions = [\<lparr>sub_id = 3, sub_user_id = 1, sub_plan_type = ''monthly'',
                         sub_status = ACTIVE, sub_started_at = 1700000000000,
                         sub_expires_at = Some 1702592000000\<rparr>],
      next_id = 4\<rparr>"

section \<open>Facts about the store operations\<close>

lemma find_Some_mem: "find P xs = Some x \<Longrightarrow> x \<in> set xs \<and> P x"
  by (induction xs) (auto split: if_splits)

lemma find_None_conv: "find P xs = None \<longleftrightarrow> (\<forall>x\<in>set xs. \<not> P x)"
  by (induction xs) auto

lemma valid_set: "set validPlanTypes = {''monthly'', ''yearly'', ''lifetime''}"
  by (simp add: validPlanTypes_def)

lemma transaction_failure:
  "fst (transaction fl st body) = Inl e \<Longrightarrow> snd (transaction fl st body) = st"
  by (auto simp: transaction_def split: prod.splits sum.splits option.splits)

lemma payment_create_frame:
  "payment_create fl st u p = (r, st') \<Longrightarrow>
     users st' = users st \<and> webhookEvents st' = webhookEvents st
     \<and> subscriptions st' = subscriptions st"
  by (auto simp: payment_create_def Let_def split: option.splits)

lemma subscription_upsert_frame:
  "subscription_upsert fl st u pl a b c d = (r, st') \<Longrightarrow>
     users st' = users st \<and> webhookEvents st' = webhookEvents st \<and> payments st' = payments st"
  by (auto simp: subscription_upsert_def Let_def split: option.splits)

lemma webhookEvent_update_frame:
  "webhookEvent_update fl st i s t = (r, st') \<Longrightarrow>
     users st' = users st \<and> payments st' = payments st \<and> subscriptions st' = subscriptions st"
  by (auto simp: webhookEvent_update_def split: option.splits)

lemma processPaymentTransaction_users:
  "users (snd (processPaymentTransaction fl now st w u p)) = users st"
  unfolding processPaymentTransaction_def transaction_def Let_def
  by (auto split: prod.splits sum.splits option.splits
      dest!: payment_create_frame subscription_upsert_frame webhookEvent_update_frame)

lemma processPaymentTransaction_users':
  "processPaymentTransaction fl now st w u p = (r, st') \<Longrightarrow> users st' = users st"
  using processPaymentTransaction_users [of fl now st w u p] by simp

lemma webhookEvent_create_ok:
  assumes "fl WebhookEventCreate = None"
    and "find (\<lambda>r. we_external_payment_id r = ext \<and> we_event_type r = ty) (webhookEvents st) = None"
  shows "webhookEvent_create fl st ext ty s pl =
     (Inr \<lparr>we_id = next_id st, we_external_payment_id = ext, we_event_type = ty,
           we_status = s, we_payload = pl, we_processed_at = None\<rparr>,
      st\<lparr>webhookEvents := webhookEvents st @
            [\<lparr>we_id = next_id st, we_external_payment_id = ext, we_event_type = ty,
              we_status = s, we_payload = pl, we_processed_at = None\<rparr>],
         next_id := Suc (next_id st)\<rparr>)"
  using assms by (simp add: webhookEvent_create_def Let_def)

lemma findOrCreateUser_ok:
  assumes "fl UserFindUnique = None" and "fl UserCreate = None"
  shows "findOrCreateUser fl now st em =
     (case find (\<lambda>u. usr_email u = effective_email now em) (users st) of
        Some u \<Rightarrow> (Inr u, st)
      | None \<Rightarrow>
          (Inr \<lparr>usr_id = next_id st, usr_email = effective_email now em\<rparr>,
           st\<lparr>users := users st @ [\<lparr>usr_id = next_id st, usr_email = effective_email now em\<rparr>],
              next_id := Suc (next_id st)\<rparr>))"
  using assms
  by (simp add: findOrCreateUser_def user_findUnique_def user_create_def Let_def
      split: option.splits)

lemma findOrCreateUser_frame:
  "findOrCreateUser fl now st em = (r, st') \<Longrightarrow>
     payments st' = payments st \<and> subscriptions st' = subscriptions st
     \<and> webhookEvents st' = webhookEvents st"
  by (auto simp: findOrCreateUser_def user_findUnique_def user_create_def Let_def
      split: option.splits sum.splits)

lemma processPaymentTransaction_failure:
  "processPaymentTransaction fl now st w u p = (Inl e, st') \<Longrightarrow> st' = st"
proof -
  assume a: "processPaymentTransaction fl now st w u p = (Inl e, st')"
  then have "fst (processPaymentTransaction fl now st w u p) = Inl e" by simp
  then have "snd (processPaymentTransaction fl now st w u p) = st"
    unfolding processPaymentTransaction_def by (rule transaction_failure)
  with a show "st' = st" by simp
qed

lemma validator_accepts:
  "0 < amount p \<Longrightarrow> planType p \<in> set validPlanTypes \<Longrightarrow>
     snd (validateWebhookBusinessLogic p) = Inr ()"
  by (simp add: validateWebhookBusinessLogic_def Let_def)

lemma subscription_upsert_row:
  assumes "subscription_upsert fl st u plan c_started ex ACTIVE ex = (Inr s, st')"
  shows "s \<in> set (subscriptions st') \<and> sub_user_id s = u \<and> sub_plan_type s = plan
         \<and> sub_status s = ACTIVE \<and> sub_expires_at s = Some ex"
proof (cases "find (\<lambda>s. sub_user_id s = u \<and> sub_plan_type s = plan) (subscriptions st)")
  case None
  then show ?thesis using assms
    by (auto simp: subscription_upsert_def Let_def split: option.splits)
next
  case (Some r)
  from find_Some_mem [OF Some] have "r \<in> set (subscriptions st)"
    and "sub_user_id r = u" and "sub_plan_type r = plan" by auto
  then show ?thesis using assms Some
    by (auto simp: subscription_upsert_def set_sub_def split: option.splits)
qed

lemma subscription_upsert_total:
  "fl SubscriptionUpsert = None \<Longrightarrow>
     \<exists>s st'. subscription_upsert fl st u plan a b c d = (Inr s, st')"
  by (simp add: subscription_upsert_def Let_def split: option.splits)

text \<open>
  What the apply step does when nothing fails: one payment row more, the subscription
  of (user, plan) ACTIVE with the new expiry, the event marked PROCESSED.
\<close>

lemma processPaymentTransaction_result:
  assumes "fl PaymentCreate = None" and su: "fl SubscriptionUpsert = None"
    and "fl WebhookEventUpdate = None" and "fl TransactionCommit = None"
    and "find (\<lambda>r. pay_external_payment_id r = externalPaymentId p) (payments st) = None"
    and "find (\<lambda>r. we_id r = w) (webhookEvents st) \<noteq> None"
  shows "\<exists>s st'. processPaymentTransaction fl now st w u p = (Inr (next_id st, sub_id s), st')
     \<and> payments st' = payments st @
          [\<lparr>pay_id = next_id st, pay_user_id = u,
            pay_external_payment_id = externalPaymentId p, pay_amount = amount p,
            pay_currency = currency p, pay_plan_type = planType p,
            pay_payment_method = paymentMethod p, pay_provider = provider p,
            pay_status = COMPLETED, pay_metadata = metadata p\<rparr>]
     \<and> s \<in> set (subscriptions st') \<and> sub_user_id s = u \<and> sub_plan_type s = planType p
     \<and> sub_status s = ACTIVE
     \<and> sub_expires_at s = Some (now + getSubscriptionDuration (planType p) * 24 * 60 * 60 * 1000)
     \<and> webhookEvents st' = map (set_processed w PROCESSED now) (webhookEvents st)
     \<and> users st' = users st"
proof -
  define pay where "pay = \<lparr>pay_id = next_id st, pay_user_id = u,
            pay_external_payment_id = externalPaymentId p, pay_amount = amount p,
            pay_currency = currency p, pay_plan_type = planType p,
            pay_payment_method = paymentMethod p, pay_provider = provider p,
            pay_status = COMPLETED, pay_metadata = metadata p\<rparr>"
  define st1 where "st1 = st\<lparr>payments := payments st @ [pay], next_id := Suc (next_id st)\<rparr>"
  define ex where "ex = now + getSubscriptionDuration (planType p) * 24 * 60 * 60 * 1000"
  have c: "payment_create fl st u p = (Inr pay, st1)"
    using assms(1,5) by (simp add: payment_create_def Let_def pay_def st1_def)
  obtain s st2 where up: "subscription_upsert fl st1 u (planType p) now ex ACTIVE ex = (Inr s, st2)"
    using subscription_upsert_total [of fl st1 u "planType p" now ex ACTIVE ex] su by blast
  note row = subscription_upsert_row [OF up]
  note fr = subscription_upsert_frame [OF up]
  have idf: "find (\<lambda>r. we_id r = w) (webhookEvents st2) \<noteq> None"
    using assms(6) fr by (simp add: st1_def)
  then have upd: "webhookEvent_update fl st2 w PROCESSED now =
      (Inr (), st2\<lparr>webhookEvents := map (set_processed w PROCESSED now) (webhookEvents st2)\<rparr>)"
    using assms(3) by (auto simp: webhookEvent_update_def split: option.splits)
  have "processPaymentTransaction fl now st w u p =
      (Inr (next_id st, sub_id s),
       st2\<lparr>webhookEvents := map (set_processed w PROCESSED now) (webhookEvents st2)\<rparr>)"
    using c up upd assms(4)
    by (simp add: processPaymentTransaction_def transaction_def Let_def ex_def pay_def)
  then show ?thesis
    using row fr by (auto simp: st1_def pay_def ex_def)
qed

lemma processed_rows:
  assumes old: "\<forall>ev\<in>set evs. \<not> (we_external_payment_id ev = ext \<and> we_event_type ev = ty)"
    and evs': "evs' = map (set_processed i PROCESSED now)
        (evs @ [\<lparr>we_id = i, we_external_payment_id = ext, we_event_type = ty,
                 we_status = RECEIVED, we_payload = pl, we_processed_at = None\<rparr>])"
  shows "(\<exists>ev\<in>set evs'. we_external_payment_id ev = ext \<and> we_event_type ev = ty)
       \<and> (\<forall>ev\<in>set evs'. we_external_payment_id ev = ext \<and> we_event_type ev = ty \<longrightarrow>
             we_status ev = PROCESSED \<and> we_processed_at ev = Some now)
       \<and> length evs' = Suc (length evs)"
  using old unfolding evs' by (auto simp: set_processed_def)

text \<open>The decimal text of a number is a non-empty run of digits.\<close>

lemma toString_nat_digits:
  "toString_nat n \<noteq> [] \<and> (\<forall>c\<in>set (toString_nat n). is_digit c)"
proof (induction n rule: toString_nat.induct)
  case (1 n)
  have d: "\<And>k. k < 10 \<Longrightarrow> is_digit (digit_of k)"
    unfolding is_digit_def digit_of_def by (rule nth_mem) simp
  show ?case
  proof (cases "n < 10")
    case True
    then show ?thesis by (simp add: toString_nat.simps [of n] d)
  next
    case False
    then show ?thesis using 1 by (simp add: toString_nat.simps [of n] d)
  qed
qed

text \<open>The definitions a run of the service on a concrete store unfolds.\<close>

lemmas run_defs =
  processWebhook_def checkIfAlreadyProcessed_def webhookEvent_findUnique_def
  webhookEvent_create_def findOrCreateUser_def user_findUnique_def user_create_def
  effective_email_def placeholder_email_def validateWebhookBusinessLogic_def
  validPlanTypes_def getExpectedAmountForPlan_def planPrices_def
  processPaymentTransaction_def transaction_def payment_create_def
  subscription_upsert_def set_sub_def webhookEvent_update_def set_processed_def
  getSubscriptionDuration_def durations_def no_faults_def Let_def
  validPayload_def clock_def toString_nat.simps digit_of_def P2002_def P2025_def

section \<open>The business validator\<close>

text \<open>
  Claim C6, as the code has it. The validator rejects an event exactly when the amount
  is at most zero or the plan type is none of monthly, yearly and lifetime; an amount
  at most zero is rejected as ``Amount must be positive'', an unknown plan (with a
  positive amount) as ``Invalid plan type''. It makes no integer check, so every
  positive amount passes, whole or not. An amount more than 100 minor units away from
  the plan's price (999, 9999, 29999) is written to the log and the event is accepted.
\<close>

theorem validator_rejects_iff:
  "(isl (snd (validateWebhookBusinessLogic p)) \<longleftrightarrow>
      amount p \<le> 0 \<or> planType p \<notin> {''monthly'', ''yearly'', ''lifetime''})
   \<and> (amount p \<le> 0 \<longrightarrow>
        snd (validateWebhookBusinessLogic p) = Inl (BadRequestException ''Amount must be positive''))
   \<and> (0 < amount p \<and> planType p \<notin> {''monthly'', ''yearly'', ''lifetime''} \<longrightarrow>
        snd (validateWebhookBusinessLogic p) = Inl (BadRequestException ''Invalid plan type''))
   \<and> (0 < amount p \<and> planType p \<in> {''monthly'', ''yearly'', ''lifetime''}
        \<and> \<bar>amount p - getExpectedAmountForPlan (planType p)\<bar> > 100 \<longrightarrow>
        validateWebhookBusinessLogic p =
          ([AmountMismatch (getExpectedAmountForPlan (planType p)) (amount p)], Inr ()))
   \<and> getExpectedAmountForPlan ''monthly'' = 999
   \<and> getExpectedAmountForPlan ''yearly'' = 9999
   \<and> getExpectedAmountForPlan ''lifetime'' = 29999"
  unfolding validateWebhookBusinessLogic_def valid_set
  by (simp add: getExpectedAmountForPlan_def planPrices_def Let_def)

theorem validator_rejects_iff_witness:
  "0 < amount (validPayload\<lparr>amount := 5000\<rparr>)
   \<and> planType (validPayload\<lparr>amount := 5000\<rparr>) \<in> {''monthly'', ''yearly'', ''lifetime''}
   \<and> \<bar>amount (validPayload\<lparr>amount := 5000\<rparr>)
        - getExpectedAmountForPlan (planType (validPayload\<lparr>amount := 5000\<rparr>))\<bar> > 100
   \<and> validateWebhookBusinessLogic (validPayload\<lparr>amount := 5000\<rparr>)
        = ([AmountMismatch 999 5000], Inr ())
   \<and> snd (validateWebhookBusinessLogic (validPayload\<lparr>amount := 0\<rparr>))
        = Inl (BadRequestException ''Amount must be positive'')
   \<and> snd (validateWebhookBusinessLogic (validPayload\<lparr>amount := - 100\<rparr>))
        = Inl (BadRequestException ''Amount must be positive'')
   \<and> snd (validateWebhookBusinessLogic (validPayload\<lparr>planType := ''invalid_plan''\<rparr>))
        = Inl (BadRequestException ''Invalid plan type'')
   \<and> \<not> isl (snd (validateWebhookBusinessLogic (validPayload\<lparr>amount := 1999 / 2\<rparr>)))"
  using validator_rejects_iff [of "validPayload\<lparr>amount := 5000\<rparr>"]
        validator_rejects_iff [of "validPayload\<lparr>amount := 0\<rparr>"]
        validator_rejects_iff [of "validPayload\<lparr>amount := - 100\<rparr>"]
        validator_rejects_iff [of "validPayload\<lparr>planType := ''invalid_plan''\<rparr>"]
        validator_rejects_iff [of "validPayload\<lparr>amount := 1999 / 2\<rparr>"]
  by (simp add: validPayload_def)

text \<open>
  Claim C6 as it was stated, rejection exactly when the amount is not a positive
  integer or the plan is unknown, fails on the code: the amounts 999.5 and 0.5 with the
  plan monthly are no positive integers, and the validator accepts both, the second
  with a line in the log.
\<close>

theorem validator_accepts_fractional_amount:
  "\<not> is_positive_integer (amount (validPayload\<lparr>amount := 1999 / 2\<rparr>))
   \<and> planType (validPayload\<lparr>amount := 1999 / 2\<rparr>) \<in> {''monthly'', ''yearly'', ''lifetime''}
   \<and> validateWebhookBusinessLogic (validPayload\<lparr>amount := 1999 / 2\<rparr>) = ([], Inr ())
   \<and> \<not> (isl (snd (validateWebhookBusinessLogic (validPayload\<lparr>amount := 1999 / 2\<rparr>))) \<longleftrightarrow>
          \<not> is_positive_integer (amount (validPayload\<lparr>amount := 1999 / 2\<rparr>))
          \<or> planType (validPayload\<lparr>amount := 1999 / 2\<rparr>) \<notin> {''monthly'', ''yearly'', ''lifetime''})
   \<and> \<not> is_positive_integer (amount (validPayload\<lparr>amount := 1 / 2\<rparr>))
   \<and> validateWebhookBusinessLogic (validPayload\<lparr>amount := 1 / 2\<rparr>)
        = ([AmountMismatch 999 (1 / 2)], Inr ())"
  by (simp add: is_positive_integer_def validateWebhookBusinessLogic_def validPlanTypes_def
        getExpectedAmountForPlan_def planPrices_def validPayload_def Let_def)

section \<open>The signature guard\<close>

text \<open>
  When the request has a parsed body, the guard fails closed: it lets the request
  through only when the header is present, non-empty and equal to the digest it
  computes, and every other outcome is an UnauthorizedException; a missing (or empty)
  header is rejected as missing, a signature whose byte length differs from the digest's
  as a bad format, the RangeError of the comparison being caught inside the guard.
\<close>

lemma canActivate_parsed_body:
  "(canActivate hmac secret sg (Some body) = Inr True \<longleftrightarrow>
      (\<exists>s. sg = Some s \<and> s \<noteq> [] \<and> s = hmac secret (stringify body)))
   \<and> (canActivate hmac secret sg (Some body) \<noteq> Inr True \<longrightarrow>
        (\<exists>m. canActivate hmac secret sg (Some body) = Inl (UnauthorizedException m)))
   \<and> (sg = None \<or> sg = Some [] \<longrightarrow>
        canActivate hmac secret sg (Some body)
          = Inl (UnauthorizedException ''Missing webhook signature''))
   \<and> (\<forall>s. sg = Some s \<and> s \<noteq> [] \<and> length s \<noteq> length (hmac secret (stringify body)) \<longrightarrow>
        canActivate hmac secret sg (Some body) =
          Inl (UnauthorizedException ''Invalid webhook signature format''))"
  by (auto simp: canActivate_def JSON_stringify_def timingSafeEqual_def Let_def
      split: option.splits)

text \<open>The guard never accepts a request whose body is undefined.\<close>

lemma canActivate_no_body:
  "canActivate hmac secret sg None \<noteq> Inr True"
  by (auto simp: canActivate_def JSON_stringify_def Let_def split: option.splits)

text \<open>
  Claim C7 says that a malformed signature always ends in the authentication failure
  and never in an exception that passes it by. The code misses one case: the digest is
  computed before the \<^verbatim>\<open>try\<close> block opens, so for a request that carries the
  signature \<^verbatim>\<open>short\<close> (of the wrong length for any digest) and no parsed body,
  \<^verbatim>\<open>update(undefined)\<close> throws a TypeError that leaves the guard, whatever the secret
  and the digest function. Only the missing header is still answered with the
  authentication failure there; with a parsed body every mismatch is
  (\<open>canActivate_parsed_body\<close>).
\<close>

theorem guard_throws_on_missing_body:
  "canActivate hmac secret (Some ''short'') None
     = Inl (TypeError ''The data argument must be of type string'')
   \<and> canActivate hmac secret None None
     = Inl (UnauthorizedException ''Missing webhook signature'')"
  by (simp add: canActivate_def JSON_stringify_def)

section \<open>The transactional apply step\<close>

text \<open>
  Claim C3. When the apply step fails, whichever of its three steps fails, the store
  after it is the store before it: no payment, no subscription change and no status
  update is visible, so the event is still RECEIVED. In particular a failure of the
  subscription upsert (as of the payment create or the status update) makes the step
  fail and leaves the payments table as it was.
\<close>

theorem processPaymentTransaction_atomic:
  "(\<forall>e. fst (processPaymentTransaction fl now st w u p) = Inl e \<longrightarrow>
        snd (processPaymentTransaction fl now st w u p) = st)
   \<and> (fl PaymentCreate \<noteq> None \<or> fl SubscriptionUpsert \<noteq> None
        \<or> fl WebhookEventUpdate \<noteq> None \<longrightarrow>
        isl (fst (processPaymentTransaction fl now st w u p))
        \<and> payments (snd (processPaymentTransaction fl now st w u p)) = payments st
        \<and> subscriptions (snd (processPaymentTransaction fl now st w u p)) = subscriptions st
        \<and> webhookEvents (snd (processPaymentTransaction fl now st w u p)) = webhookEvents st)"
proof -
  have rollback: "\<And>e. fst (processPaymentTransaction fl now st w u p) = Inl e \<Longrightarrow>
        snd (processPaymentTransaction fl now st w u p) = st"
    unfolding processPaymentTransaction_def by (rule transaction_failure)
  have fails: "fl PaymentCreate \<noteq> None \<or> fl SubscriptionUpsert \<noteq> None
        \<or> fl WebhookEventUpdate \<noteq> None \<Longrightarrow>
        isl (fst (processPaymentTransaction fl now st w u p))"
    unfolding processPaymentTransaction_def transaction_def Let_def
    by (auto simp: payment_create_def subscription_upsert_def webhookEvent_update_def Let_def
        split: prod.splits sum.splits option.splits)
  show ?thesis using rollback fails by (auto simp: isl_def)
qed

theorem processPaymentTransaction_atomic_witness:
  "upsert_fails SubscriptionUpsert \<noteq> None
   \<and> fst (processPaymentTransaction upsert_fails clock store_received 0 1 validPayload)
       = Inl (Error ''Connection lost'')
   \<and> snd (processPaymentTransaction upsert_fails clock store_received 0 1 validPayload)
       = store_received
   \<and> payments (snd (processPaymentTransaction upsert_fails clock store_received 0 1
         validPayload)) = []
   \<and> map we_status (webhookEvents (snd (processPaymentTransaction upsert_fails clock
         store_received 0 1 validPayload))) = [RECEIVED]"
proof -
  have f: "upsert_fails SubscriptionUpsert \<noteq> None"
    by (simp add: upsert_fails_def)
  have h: "fst (processPaymentTransaction upsert_fails clock store_received 0 1 validPayload)
    = Inl (Error ''Connection lost'')"
    by (simp add: processPaymentTransaction_def transaction_def payment_create_def
        subscription_upsert_def upsert_fails_def no_faults_def store_received_def Let_def)
  have p: "payments store_received = []"
       "map we_status (webhookEvents store_received) = [RECEIVED]"
    by (simp_all add: store_received_def)
  show ?thesis
    using processPaymentTransaction_atomic
            [of upsert_fails clock store_received 0 1 validPayload] f h p
    by simp
qed

text \<open>
  Seen from processWebhook: when a delivery that passed the duplicate check fails, at the user
  step, in the validator or in the transaction, the store holds no payment and no
  subscription change of the attempt, and the event recorded for it is still RECEIVED.
\<close>

lemma failed_request_leaves_event_received:
  assumes "fl WebhookEventFindUnique = None" and "fl WebhookEventCreate = None"
    and "find (\<lambda>r. we_external_payment_id r = externalPaymentId p \<and> we_event_type r = eventType p)
           (webhookEvents st) = None"
    and "processWebhook fl now st p = (Inl e, st')"
  shows "payments st' = payments st \<and> subscriptions st' = subscriptions st
       \<and> webhookEvents st' = webhookEvents st @
           [\<lparr>we_id = next_id st, we_external_payment_id = externalPaymentId p,
             we_event_type = eventType p, we_status = RECEIVED, we_payload = p,
             we_processed_at = None\<rparr>]"
  using assms
  by (auto simp: processWebhook_def checkIfAlreadyProcessed_def webhookEvent_findUnique_def
        webhookEvent_create_ok
      split: option.splits sum.splits prod.splits
      dest!: findOrCreateUser_frame processPaymentTransaction_failure)

text \<open>
  The expiry the apply step writes, for every store and payload: whenever the step
  succeeds, the subscription of (user, plan) expires at \<open>now\<close> plus the plan's
  duration, whatever the row held before.
\<close>

lemma apply_step_expiry:
  assumes "processPaymentTransaction fl now st w u p = (Inr (pid, sid), st')"
  shows "\<exists>s\<in>set (subscriptions st'). sub_id s = sid \<and> sub_user_id s = u
           \<and> sub_plan_type s = planType p \<and> sub_status s = ACTIVE
           \<and> sub_expires_at s =
               Some (now + getSubscriptionDuration (planType p) * 24 * 60 * 60 * 1000)"
  using assms
  unfolding processPaymentTransaction_def transaction_def Let_def
  by (auto split: prod.splits sum.splits option.splits
      dest!: subscription_upsert_row webhookEvent_update_frame)

text \<open>The rule of \<^verbatim>\<open>activateOrExtendSubscription\<close>, which the apply step does not call.\<close>

lemma newExpiryDate_rule:
  "newExpiryDate existing now d =
     (if \<exists>s ex. existing = Some s \<and> sub_status s = ACTIVE \<and> sub_expires_at s = Some ex \<and> now < ex
      then the (sub_expires_at (the existing)) + d * 86400000
      else now + d * 86400000)"
  by (auto simp: newExpiryDate_def split: option.splits)

text \<open>
  Claim C1 says that the upsert of the apply step extends an active, unexpired
  subscription from its current expiry. The code does not: on \<open>store_active\<close>, where
  the monthly subscription is ACTIVE and expires 15 days after the clock reading, the
  apply step succeeds and writes an expiry of the clock reading plus 30 days, while
  \<^verbatim>\<open>activateOrExtendSubscription\<close> on the same store gives the clock reading plus
  45 days.
\<close>

theorem apply_step_restarts_from_now:
  "fst (processPaymentTransaction no_faults clock store_active 0 1 validPayload) = Inr (3, 2)
   \<and> subscriptions store_active =
        [\<lparr>sub_id = 2, sub_user_id = 1, sub_plan_type = ''monthly'', sub_status = ACTIVE,
          sub_started_at = 1698704000000, sub_expires_at = Some (1700000000000 + 15 * 86400000)\<rparr>]
   \<and> subscriptions (snd (processPaymentTransaction no_faults clock store_active 0 1 validPayload)) =
        [\<lparr>sub_id = 2, sub_user_id = 1, sub_plan_type = ''monthly'', sub_status = ACTIVE,
          sub_started_at = 1698704000000, sub_expires_at = Some (1700000000000 + 30 * 86400000)\<rparr>]
   \<and> fst (activateOrExtendSubscription no_faults clock store_active 1 ''monthly'' 30) =
        Inr \<lparr>sub_id = 2, sub_user_id = 1, sub_plan_type = ''monthly'', sub_status = ACTIVE,
          sub_started_at = 1698704000000, sub_expires_at = Some (1700000000000 + 45 * 86400000)\<rparr>"
  by (simp add: run_defs store_active_def activateOrExtendSubscription_def
        subscription_findUnique_def newExpiryDate_def)

section \<open>The signed bytes\<close>

text \<open>
  Claim C4 says that the guard digests the raw bytes of the request. The code digests
  \<^verbatim>\<open>JSON.stringify(request.body)\<close>, the parsed body printed again. For the body
  received as the bytes \<^verbatim>\<open>{"a": 1}\<close>, which parses to the object printed as
  \<^verbatim>\<open>{"a":1}\<close>, the guard accepts the sender's signature of the received bytes
  exactly when the digests of these two different texts coincide.
\<close>

theorem guard_digests_reserialised_body:
  \<open>stringify (JObj [(''a'', JNum 1)]) = ''{"a":1}''
   \<and> ''{"a": 1}'' \<noteq> ''{"a":1}''
   \<and> (canActivate hmac secret (Some (hmac secret ''{"a": 1}'')) (Some (JObj [(''a'', JNum 1)]))
          = Inr True
        \<longleftrightarrow> hmac secret ''{"a": 1}'' \<noteq> [] \<and> hmac secret ''{"a": 1}'' = hmac secret ''{"a":1}'')\<close>
proof -
  have s: \<open>stringify (JObj [(''a'', JNum 1)]) = ''{"a":1}''\<close>
    by (simp add: quote_def escape_char_def toString_int_def toString_nat.simps digit_of_def)
  show ?thesis
    by (auto simp: canActivate_def JSON_stringify_def Let_def timingSafeEqual_def quote_def
          escape_char_def toString_int_def toString_nat.simps digit_of_def)
qed

theorem guard_digests_reserialised_body_witness:
  \<open>canActivate (\<lambda>k m. k @ m) ''test_secret_key_123''
      (Some ((\<lambda>k m. k @ m) ''test_secret_key_123'' ''{"a": 1}'')) (Some (JObj [(''a'', JNum 1)]))
    \<noteq> Inr True\<close>
  using guard_digests_reserialised_body
          [where hmac = "\<lambda>k m. k @ m" and secret = "''test_secret_key_123''"]
  by simp

section \<open>Duplicate detection and the orchestrator\<close>

lemma processWebhook_existing:
  assumes "fl WebhookEventFindUnique = None"
    and "find (\<lambda>r. we_external_payment_id r = externalPaymentId p \<and> we_event_type r = eventType p)
           (webhookEvents st) = Some ev"
  shows "processWebhook fl now st p =
     (Inr \<lparr>success = True, isDuplicate = True, paymentId = Some (we_id ev),
           subscriptionId = None, error = None\<rparr>, st)"
  using assms
  by (simp add: processWebhook_def checkIfAlreadyProcessed_def webhookEvent_findUnique_def)

lemma processWebhook_duplicate_only_if:
  assumes "processWebhook fl now st p = (Inr r, st')" and "isDuplicate r"
  shows "\<exists>ev. fl WebhookEventFindUnique = None
     \<and> find (\<lambda>r. we_external_payment_id r = externalPaymentId p \<and> we_event_type r = eventType p)
           (webhookEvents st) = Some ev
     \<and> r = \<lparr>success = True, isDuplicate = True, paymentId = Some (we_id ev),
           subscriptionId = None, error = None\<rparr> \<and> st' = st"
  using assms
  unfolding processWebhook_def checkIfAlreadyProcessed_def webhookEvent_findUnique_def
  by (auto split: option.splits sum.splits prod.splits)

text \<open>
  Claim C2. With the lookup answering, processWebhook returns a duplicate outcome
  exactly when the events table holds a row with the payload's pair
  (externalPaymentId, eventType), whatever the status of that row; the outcome is then
  a success with isDuplicate set, carrying the identifier of such a row, and the store is
  the one before the call. A row with the same externalPaymentId and another eventType
  does not make the delivery a duplicate.
\<close>

theorem processWebhook_duplicate_iff:
  assumes "fl WebhookEventFindUnique = None"
  shows "((\<exists>r st'. processWebhook fl now st p = (Inr r, st') \<and> isDuplicate r) \<longleftrightarrow>
          (\<exists>ev\<in>set (webhookEvents st).
             we_external_payment_id ev = externalPaymentId p \<and> we_event_type ev = eventType p))
       \<and> ((\<exists>ev\<in>set (webhookEvents st).
             we_external_payment_id ev = externalPaymentId p \<and> we_event_type ev = eventType p) \<longrightarrow>
          (\<exists>ev\<in>set (webhookEvents st).
             we_external_payment_id ev = externalPaymentId p \<and> we_event_type ev = eventType p
             \<and> processWebhook fl now st p =
                 (Inr \<lparr>success = True, isDuplicate = True, paymentId = Some (we_id ev),
                       subscriptionId = None, error = None\<rparr>, st)))"
proof -
  let ?K = "\<lambda>r. we_external_payment_id r = externalPaymentId p \<and> we_event_type r = eventType p"
  have fwd: "(\<exists>r st'. processWebhook fl now st p = (Inr r, st') \<and> isDuplicate r) \<Longrightarrow>
        \<exists>ev\<in>set (webhookEvents st). ?K ev"
    using processWebhook_duplicate_only_if find_Some_mem by fast
  have bwd: "\<exists>ev\<in>set (webhookEvents st). ?K ev \<Longrightarrow>
        \<exists>ev\<in>set (webhookEvents st). ?K ev \<and> processWebhook fl now st p =
                 (Inr \<lparr>success = True, isDuplicate = True, paymentId = Some (we_id ev),
                       subscriptionId = None, error = None\<rparr>, st)"
  proof -
    assume "\<exists>ev\<in>set (webhookEvents st). ?K ev"
    then have "find ?K (webhookEvents st) \<noteq> None"
      by (simp add: find_None_conv)
    then obtain ev where ev: "find ?K (webhookEvents st) = Some ev" by blast
    have "processWebhook fl now st p =
                 (Inr \<lparr>success = True, isDuplicate = True, paymentId = Some (we_id ev),
                       subscriptionId = None, error = None\<rparr>, st)"
      using assms ev by (rule processWebhook_existing)
    with find_Some_mem [OF ev] show ?thesis by blast
  qed
  from fwd bwd show ?thesis by force
qed

theorem processWebhook_duplicate_iff_witness:
  "no_faults WebhookEventFindUnique = None
   \<and> map we_status (webhookEvents store_received) = [RECEIVED]
   \<and> processWebhook no_faults clock store_received validPayload =
       (Inr \<lparr>success = True, isDuplicate = True, paymentId = Some 0,
             subscriptionId = None, error = None\<rparr>, store_received)
   \<and> \<not> (\<exists>r st'. processWebhook no_faults clock store_received
                     (validPayload\<lparr>eventType := ''payment.failed''\<rparr>) = (Inr r, st')
                \<and> isDuplicate r)"
proof -
  have f: "no_faults WebhookEventFindUnique = None"
    by (simp add: no_faults_def)
  have s: "map we_status (webhookEvents store_received) = [RECEIVED]"
    by (simp add: store_received_def)
  have d: "processWebhook no_faults clock store_received validPayload =
       (Inr \<lparr>success = True, isDuplicate = True, paymentId = Some 0,
             subscriptionId = None, error = None\<rparr>, store_received)"
    using processWebhook_duplicate_iff
            [where fl = no_faults and now = clock and st = store_received and p = validPayload] f
    by (simp add: store_received_def validPayload_def)
  have n: "\<not> (\<exists>r st'. processWebhook no_faults clock store_received
                     (validPayload\<lparr>eventType := ''payment.failed''\<rparr>) = (Inr r, st')
                \<and> isDuplicate r)"
    using processWebhook_duplicate_iff
            [where fl = no_faults and now = clock and st = store_received
               and p = "validPayload\<lparr>eventType := ''payment.failed''\<rparr>"] f
    by (simp add: store_received_def validPayload_def)
  from f s d n show ?thesis by simp
qed

text \<open>
  Claim C10. When processWebhook reports a duplicate, the paymentId of its result is
  the identifier of a row of the events table with the payload's key (not of a payment),
  no subscriptionId is returned, and the controller answers 200 with this value as
  webhookEventId and no paymentId.
\<close>

theorem duplicate_reports_event_id:
  assumes "processWebhook fl now st p = (Inr r, st')" and "isDuplicate r"
  shows "(\<exists>ev\<in>set (webhookEvents st).
            we_external_payment_id ev = externalPaymentId p \<and> we_event_type ev = eventType p
            \<and> paymentId r = Some (we_id ev))
         \<and> subscriptionId r = None
         \<and> handlePaymentWebhook fl now st p =
             (\<lparr>resp_status = 200, resp_message = ''Webhook already processed (duplicate)'',
               resp_webhookEventId = paymentId r, resp_paymentId = None\<rparr>, st')"
proof -
  from processWebhook_duplicate_only_if [OF assms] obtain ev where
    ev: "find (\<lambda>r. we_external_payment_id r = externalPaymentId p \<and> we_event_type r = eventType p)
           (webhookEvents st) = Some ev"
    and r: "r = \<lparr>success = True, isDuplicate = True, paymentId = Some (we_id ev),
           subscriptionId = None, error = None\<rparr>" by blast
  from find_Some_mem [OF ev] r assms show ?thesis
    by (auto simp: handlePaymentWebhook_def)
qed

theorem duplicate_reports_event_id_witness:
  "processWebhook no_faults clock store_processed validPayload =
       (Inr \<lparr>success = True, isDuplicate = True, paymentId = Some 0,
             subscriptionId = None, error = None\<rparr>, store_processed)
   \<and> map we_id (webhookEvents store_processed) = [0]
   \<and> map pay_id (payments store_processed) = [2]
   \<and> handlePaymentWebhook no_faults clock store_processed validPayload =
       (\<lparr>resp_status = 200, resp_message = ''Webhook already processed (duplicate)'',
         resp_webhookEventId = Some 0, resp_paymentId = None\<rparr>, store_processed)"
proof -
  have h: "processWebhook no_faults clock store_processed validPayload =
       (Inr \<lparr>success = True, isDuplicate = True, paymentId = Some 0,
             subscriptionId = None, error = None\<rparr>, store_processed)"
    by (simp add: run_defs store_processed_def)
  have i: "map we_id (webhookEvents store_processed) = [0]"
      "map pay_id (payments store_processed) = [2]"
    by (simp_all add: store_processed_def)
  show ?thesis
    using duplicate_reports_event_id [OF h] h i by simp
qed

section \<open>Uniqueness violations\<close>

text \<open>
  Claim C5 says that a uniqueness violation on creating the event or the payment becomes
  a duplicate outcome. The code lets it through as the failure of the call. On
  \<open>store_processed\<close>, which holds the payment of pay_ext_123, a second event type for
  the same payment passes the duplicate check, the payment create inside the transaction fails with
  P2002 and processWebhook throws that error; \<^verbatim>\<open>createPayment\<close> of the payments
  service, which the apply step does not call, resolves the same create to the existing
  payment. A P2002 of the event create (a concurrent delivery that won the race) is
  thrown on as well.
\<close>

theorem unique_violation_is_thrown:
  "fst (processWebhook no_faults clock store_processed
          (validPayload\<lparr>eventType := ''payment.refunded''\<rparr>))
     = Inl (PrismaClientKnownRequestError ''P2002'')
   \<and> fst (createPayment no_faults store_processed 1
          (validPayload\<lparr>eventType := ''payment.refunded''\<rparr>))
     = Inr (Some \<lparr>pay_id = 2, pay_user_id = 1, pay_external_payment_id = ''pay_ext_123'',
                    pay_amount = 999, pay_currency = ''USD'', pay_plan_type = ''monthly'',
                    pay_payment_method = None, pay_provider = None, pay_status = COMPLETED,
                    pay_metadata = None\<rparr>)
   \<and> fst (processWebhook (no_faults(WebhookEventCreate := Some P2002)) clock empty_store
          validPayload)
     = Inl (PrismaClientKnownRequestError ''P2002'')"
  by (simp add: run_defs store_processed_def empty_store_def createPayment_def
        payment_findUnique_def is_P2002_def)

section \<open>Identity resolution\<close>

lemma processWebhook_users:
  assumes "fl WebhookEventFindUnique = None" and "fl WebhookEventCreate = None"
    and "fl UserFindUnique = None" and "fl UserCreate = None"
    and "find (\<lambda>r. we_external_payment_id r = externalPaymentId p \<and> we_event_type r = eventType p)
           (webhookEvents st) = None"
  shows "users (snd (processWebhook fl now st p)) =
     (case find (\<lambda>u. usr_email u = effective_email now (email p)) (users st) of
        Some u \<Rightarrow> users st
      | None \<Rightarrow> users st @ [\<lparr>usr_id = Suc (next_id st),
                               usr_email = effective_email now (email p)\<rparr>])"
  using assms
  by (auto simp: processWebhook_def checkIfAlreadyProcessed_def webhookEvent_findUnique_def
        webhookEvent_create_ok findOrCreateUser_ok
      split: option.splits sum.splits prod.splits
      dest!: processPaymentTransaction_users')

lemma processWebhook_user_row:
  assumes "fl WebhookEventFindUnique = None" and "fl WebhookEventCreate = None"
    and "fl UserFindUnique = None" and "fl UserCreate = None"
    and "find (\<lambda>r. we_external_payment_id r = externalPaymentId p \<and> we_event_type r = eventType p)
           (webhookEvents st) = None"
  shows "(\<exists>u\<in>set (users (snd (processWebhook fl now st p))).
            usr_email u = effective_email now (email p))
       \<and> set (users st) \<subseteq> set (users (snd (processWebhook fl now st p)))
       \<and> ((\<forall>u\<in>set (users st). usr_email u \<noteq> effective_email now (email p)) \<longrightarrow>
            users (snd (processWebhook fl now st p)) =
              users st @ [\<lparr>usr_id = Suc (next_id st),
                            usr_email = effective_email now (email p)\<rparr>])"
proof -
  note u = processWebhook_users [OF assms, of now]
  show ?thesis
  proof (cases "find (\<lambda>u. usr_email u = effective_email now (email p)) (users st)")
    case None
    then have "users (snd (processWebhook fl now st p)) =
        users st @ [\<lparr>usr_id = Suc (next_id st), usr_email = effective_email now (email p)\<rparr>]"
      using u by simp
    then show ?thesis by auto
  next
    case (Some a)
    then have "users (snd (processWebhook fl now st p)) = users st"
      using u by simp
    with find_Some_mem [OF Some] show ?thesis by auto
  qed
qed

text \<open>
  Claim C9. The user is found or created before, and outside, the transaction. For a
  delivery that is not a duplicate (the store answering the lookups and the two
  creates), the store after processWebhook holds a user with the event's email, or
  with the placeholder when there is none, whatever the outcome of the call; no user is
  lost, and when no such user existed the table has grown by that one row. So a webhook
  that the validator rejects, or whose transaction is rolled back, still adds a user.
\<close>

theorem user_survives_failed_webhook:
  assumes "fl WebhookEventFindUnique = None" and "fl WebhookEventCreate = None"
    and "fl UserFindUnique = None" and "fl UserCreate = None"
    and "\<forall>ev\<in>set (webhookEvents st).
           \<not> (we_external_payment_id ev = externalPaymentId p \<and> we_event_type ev = eventType p)"
  shows "(\<exists>u\<in>set (users (snd (processWebhook fl now st p))).
            usr_email u = effective_email now (email p))
       \<and> set (users st) \<subseteq> set (users (snd (processWebhook fl now st p)))
       \<and> ((\<forall>u\<in>set (users st). usr_email u \<noteq> effective_email now (email p)) \<longrightarrow>
            users (snd (processWebhook fl now st p)) =
              users st @ [\<lparr>usr_id = Suc (next_id st),
                            usr_email = effective_email now (email p)\<rparr>])"
proof -
  have none: "find (\<lambda>r. we_external_payment_id r = externalPaymentId p \<and> we_event_type r = eventType p)
           (webhookEvents st) = None"
    using assms(5) by (simp add: find_None_conv)
  from assms(1-4) none show ?thesis by (rule processWebhook_user_row)
qed

theorem user_survives_failed_webhook_witness:
  "fst (processWebhook no_faults clock empty_store (validPayload\<lparr>amount := 0\<rparr>))
     = Inl (BadRequestException ''Amount must be positive'')
   \<and> users empty_store = []
   \<and> users (snd (processWebhook no_faults clock empty_store (validPayload\<lparr>amount := 0\<rparr>)))
       = [\<lparr>usr_id = 1, usr_email = ''test@example.com''\<rparr>]
   \<and> fst (processWebhook upsert_fails clock empty_store validPayload)
       = Inl (Error ''Connection lost'')
   \<and> users (snd (processWebhook upsert_fails clock empty_store validPayload))
       = [\<lparr>usr_id = 1, usr_email = ''test@example.com''\<rparr>]"
proof -
  have a: "fst (processWebhook no_faults clock empty_store (validPayload\<lparr>amount := 0\<rparr>))
     = Inl (BadRequestException ''Amount must be positive'')"
    by (simp add: run_defs empty_store_def)
  have b: "fst (processWebhook upsert_fails clock empty_store validPayload)
       = Inl (Error ''Connection lost'')"
    by (simp add: run_defs empty_store_def upsert_fails_def)
  have c: "users (snd (processWebhook no_faults clock empty_store (validPayload\<lparr>amount := 0\<rparr>)))
       = [\<lparr>usr_id = 1, usr_email = ''test@example.com''\<rparr>]"
    using user_survives_failed_webhook
            [of no_faults empty_store "validPayload\<lparr>amount := 0\<rparr>" clock]
    by (simp add: no_faults_def empty_store_def effective_email_def validPayload_def)
  have d: "users (snd (processWebhook upsert_fails clock empty_store validPayload))
       = [\<lparr>usr_id = 1, usr_email = ''test@example.com''\<rparr>]"
    using user_survives_failed_webhook [of upsert_fails empty_store validPayload clock]
    by (simp add: upsert_fails_def no_faults_def empty_store_def effective_email_def
          validPayload_def)
  have e: "users empty_store = []"
    by (simp add: empty_store_def)
  from a b c d e show ?thesis by simp
qed

lemma processWebhook_fresh_result:
  assumes fl: "\<forall>op. fl op = None"
    and key: "find (\<lambda>r. we_external_payment_id r = externalPaymentId p \<and> we_event_type r = eventType p)
           (webhookEvents st) = None"
    and pay: "find (\<lambda>r. pay_external_payment_id r = externalPaymentId p) (payments st) = None"
    and amt: "0 < amount p" and plan: "planType p \<in> set validPlanTypes"
  shows "\<exists>usr pid s st'. processWebhook fl now st p =
       (Inr \<lparr>success = True, isDuplicate = False, paymentId = Some pid,
             subscriptionId = Some (sub_id s), error = None\<rparr>, st')
     \<and> usr \<in> set (users st') \<and> usr_email usr = effective_email now (email p)
     \<and> payments st' = payments st @
          [\<lparr>pay_id = pid, pay_user_id = usr_id usr,
            pay_external_payment_id = externalPaymentId p, pay_amount = amount p,
            pay_currency = currency p, pay_plan_type = planType p,
            pay_payment_method = paymentMethod p, pay_provider = provider p,
            pay_status = COMPLETED, pay_metadata = metadata p\<rparr>]
     \<and> s \<in> set (subscriptions st') \<and> sub_user_id s = usr_id usr
     \<and> sub_plan_type s = planType p \<and> sub_status s = ACTIVE
     \<and> sub_expires_at s = Some (now + getSubscriptionDuration (planType p) * 24 * 60 * 60 * 1000)
     \<and> webhookEvents st' = map (set_processed (next_id st) PROCESSED now)
          (webhookEvents st @
            [\<lparr>we_id = next_id st, we_external_payment_id = externalPaymentId p,
              we_event_type = eventType p, we_status = RECEIVED, we_payload = p,
              we_processed_at = None\<rparr>])"
proof -
  define row where "row = \<lparr>we_id = next_id st, we_external_payment_id = externalPaymentId p,
      we_event_type = eventType p, we_status = RECEIVED, we_payload = p, we_processed_at = None\<rparr>"
  define st1 where "st1 = st\<lparr>webhookEvents := webhookEvents st @ [row], next_id := Suc (next_id st)\<rparr>"
  have c: "webhookEvent_create fl st (externalPaymentId p) (eventType p) RECEIVED p = (Inr row, st1)"
    using fl key by (simp add: webhookEvent_create_ok row_def st1_def)
  obtain usr st2 where fu: "findOrCreateUser fl now st1 (email p) = (Inr usr, st2)"
    and p2: "payments st2 = payments st" and e2: "webhookEvents st2 = webhookEvents st @ [row]"
    and u2: "usr \<in> set (users st2)" and ue: "usr_email usr = effective_email now (email p)"
  proof (cases "find (\<lambda>u. usr_email u = effective_email now (email p)) (users st1)")
    case None
    then show ?thesis using fl that by (simp add: findOrCreateUser_ok st1_def)
  next
    case (Some a)
    then show ?thesis using fl that find_Some_mem [OF Some]
      by (simp add: findOrCreateUser_ok st1_def)
  qed
  have idf: "find (\<lambda>r. we_id r = we_id row) (webhookEvents st2) \<noteq> None"
    by (simp add: find_None_conv e2)
  from processPaymentTransaction_result [of fl p st2 "we_id row" now "usr_id usr"] fl pay p2 idf
  obtain s st3 where
    t: "processPaymentTransaction fl now st2 (we_id row) (usr_id usr) p
          = (Inr (next_id st2, sub_id s), st3)"
    and t1: "payments st3 = payments st2 @
          [\<lparr>pay_id = next_id st2, pay_user_id = usr_id usr,
            pay_external_payment_id = externalPaymentId p, pay_amount = amount p,
            pay_currency = currency p, pay_plan_type = planType p,
            pay_payment_method = paymentMethod p, pay_provider = provider p,
            pay_status = COMPLETED, pay_metadata = metadata p\<rparr>]"
    and t2: "s \<in> set (subscriptions st3)" "sub_user_id s = usr_id usr"
       "sub_plan_type s = planType p" "sub_status s = ACTIVE"
       "sub_expires_at s = Some (now + getSubscriptionDuration (planType p) * 24 * 60 * 60 * 1000)"
    and t3: "webhookEvents st3 = map (set_processed (we_id row) PROCESSED now) (webhookEvents st2)"
    and t4: "users st3 = users st2"
    by auto
  have r: "processWebhook fl now st p =
       (Inr \<lparr>success = True, isDuplicate = False, paymentId = Some (next_id st2),
             subscriptionId = Some (sub_id s), error = None\<rparr>, st3)"
    using fl key c fu t validator_accepts [OF amt plan]
    by (simp add: processWebhook_def checkIfAlreadyProcessed_def webhookEvent_findUnique_def)
  show ?thesis
    apply (rule exI [of _ usr], rule exI [of _ "next_id st2"], rule exI [of _ s],
           rule exI [of _ st3])
    using r t1 t2 t3 t4 u2 ue p2 e2 by (simp add: row_def)
qed

text \<open>
  Claim C8. An event without an email, otherwise well formed (an amount that is a
  positive integer, a known plan), new to the store (no event with its key, no payment
  with its identifier) and met by a store that answers, is processed to the end. The
  call returns a success that is no duplicate, with the identifiers of the payment and
  of the subscription. The store then holds a user whose email is user-, a non-empty
  run of decimal digits (the clock reading), and @pending.com; exactly one payment
  more, COMPLETED, of that user and with the event's payment identifier, amount,
  currency and plan; a subscription of that user and plan, ACTIVE, expiring the plan's
  duration after the clock reading; and one event row more, the row of the event's key
  being PROCESSED at the clock reading.
\<close>

theorem missing_email_still_processed:
  assumes "email p = None" and "\<forall>op. fl op = None"
    and "\<forall>ev\<in>set (webhookEvents st).
           \<not> (we_external_payment_id ev = externalPaymentId p \<and> we_event_type ev = eventType p)"
    and "\<forall>r\<in>set (payments st). pay_external_payment_id r \<noteq> externalPaymentId p"
    and "is_positive_integer (amount p)"
    and "planType p \<in> {''monthly'', ''yearly'', ''lifetime''}"
  shows "\<exists>r st' ds usr pay s.
         processWebhook fl now st p = (Inr r, st')
       \<and> success r \<and> \<not> isDuplicate r
       \<and> paymentId r = Some (pay_id pay) \<and> subscriptionId r = Some (sub_id s)
       \<and> ds = toString_nat now \<and> ds \<noteq> [] \<and> (\<forall>c\<in>set ds. is_digit c)
       \<and> usr \<in> set (users st') \<and> usr_email usr = ''user-'' @ ds @ ''@pending.com''
       \<and> payments st' = payments st @ [pay]
       \<and> pay_user_id pay = usr_id usr
       \<and> pay_external_payment_id pay = externalPaymentId p
       \<and> pay_amount pay = amount p \<and> pay_currency pay = currency p
       \<and> pay_plan_type pay = planType p \<and> pay_status pay = COMPLETED
       \<and> s \<in> set (subscriptions st') \<and> sub_user_id s = usr_id usr
       \<and> sub_plan_type s = planType p \<and> sub_status s = ACTIVE
       \<and> sub_expires_at s = Some (now + getSubscriptionDuration (planType p) * 86400000)
       \<and> (\<exists>ev\<in>set (webhookEvents st').
             we_external_payment_id ev = externalPaymentId p \<and> we_event_type ev = eventType p)
       \<and> (\<forall>ev\<in>set (webhookEvents st').
             we_external_payment_id ev = externalPaymentId p \<and> we_event_type ev = eventType p \<longrightarrow>
             we_status ev = PROCESSED \<and> we_processed_at ev = Some now)
       \<and> length (webhookEvents st') = Suc (length (webhookEvents st))"
proof -
  have key: "find (\<lambda>r. we_external_payment_id r = externalPaymentId p \<and> we_event_type r = eventType p)
           (webhookEvents st) = None"
    using assms(3) by (simp add: find_None_conv)
  have pay: "find (\<lambda>r. pay_external_payment_id r = externalPaymentId p) (payments st) = None"
    using assms(4) by (simp add: find_None_conv)
  have plan: "planType p \<in> set validPlanTypes"
    using assms(6) by (simp add: valid_set)
  have amt: "0 < amount p"
    using assms(5) by (simp add: is_positive_integer_def)
  from processWebhook_fresh_result [OF assms(2) key pay amt plan, of now]
  obtain usr pid s st' where
    r: "processWebhook fl now st p =
       (Inr \<lparr>success = True, isDuplicate = False, paymentId = Some pid,
             subscriptionId = Some (sub_id s), error = None\<rparr>, st')"
    and u: "usr \<in> set (users st')" "usr_email usr = effective_email now (email p)"
    and py: "payments st' = payments st @
          [\<lparr>pay_id = pid, pay_user_id = usr_id usr,
            pay_external_payment_id = externalPaymentId p, pay_amount = amount p,
            pay_currency = currency p, pay_plan_type = planType p,
            pay_payment_method = paymentMethod p, pay_provider = provider p,
            pay_status = COMPLETED, pay_metadata = metadata p\<rparr>]"
    and sb: "s \<in> set (subscriptions st')" "sub_user_id s = usr_id usr"
       "sub_plan_type s = planType p" "sub_status s = ACTIVE"
       "sub_expires_at s = Some (now + getSubscriptionDuration (planType p) * 24 * 60 * 60 * 1000)"
    and ev: "webhookEvents st' = map (set_processed (next_id st) PROCESSED now)
          (webhookEvents st @
            [\<lparr>we_id = next_id st, we_external_payment_id = externalPaymentId p,
              we_event_type = eventType p, we_status = RECEIVED, we_payload = p,
              we_processed_at = None\<rparr>])"
    by blast
  note rows = processed_rows [OF assms(3) ev]
  have em: "usr_email usr = ''user-'' @ toString_nat now @ ''@pending.com''"
    using u(2) assms(1) by (simp add: effective_email_def placeholder_email_def)
  show ?thesis
    apply (rule exI [of _ "\<lparr>success = True, isDuplicate = False, paymentId = Some pid,
             subscriptionId = Some (sub_id s), error = None\<rparr>"])
    apply (rule exI [of _ st'], rule exI [of _ "toString_nat now"], rule exI [of _ usr])
    apply (rule exI [of _ "\<lparr>pay_id = pid, pay_user_id = usr_id usr,
            pay_external_payment_id = externalPaymentId p, pay_amount = amount p,
            pay_currency = currency p, pay_plan_type = planType p,
            pay_payment_method = paymentMethod p, pay_provider = provider p,
            pay_status = COMPLETED, pay_metadata = metadata p\<rparr>"])
    apply (rule exI [of _ s])
    using r u(1) em py sb rows toString_nat_digits [of now] by simp
qed

theorem missing_email_still_processed_witness:
  "email (validPayload\<lparr>email := None\<rparr>) = None
   \<and> webhookEvents empty_store = [] \<and> payments empty_store = []
   \<and> is_positive_integer (amount (validPayload\<lparr>email := None\<rparr>))
   \<and> processWebhook no_faults clock empty_store (validPayload\<lparr>email := None\<rparr>)
       = (Inr \<lparr>success = True, isDuplicate = False, paymentId = Some 2,
               subscriptionId = Some 3, error = None\<rparr>,
          \<lparr>webhookEvents =
             [\<lparr>we_id = 0, we_external_payment_id = ''pay_ext_123'',
               we_event_type = ''payment.success'', we_status = PROCESSED,
               we_payload = validPayload\<lparr>email := None\<rparr>,
               we_processed_at = Some 1700000000000\<rparr>],
           users = [\<lparr>usr_id = 1, usr_email = ''user-1700000000000@pending.com''\<rparr>],
           payments =
             [\<lparr>pay_id = 2, pay_user_id = 1, pay_external_payment_id = ''pay_ext_123'',
               pay_amount = 999, pay_currency = ''USD'', pay_plan_type = ''monthly'',
               pay_payment_method = None, pay_provider = None, pay_status = COMPLETED,
               pay_metadata = None\<rparr>],
           subscriptions =
             [\<lparr>sub_id = 3, sub_user_id = 1, sub_plan_type = ''monthly'', sub_status = ACTIVE,
               sub_started_at = 1700000000000, sub_expires_at = Some 1702592000000\<rparr>],
           next_id = 4\<rparr>)
   \<and> (\<exists>r st' ds usr pay s.
         processWebhook no_faults clock empty_store (validPayload\<lparr>email := None\<rparr>) = (Inr r, st')
       \<and> success r \<and> \<not> isDuplicate r
       \<and> paymentId r = Some (pay_id pay) \<and> subscriptionId r = Some (sub_id s)
       \<and> ds = toString_nat clock \<and> ds \<noteq> [] \<and> (\<forall>c\<in>set ds. is_digit c)
       \<and> usr \<in> set (users st') \<and> usr_email usr = ''user-'' @ ds @ ''@pending.com''
       \<and> payments st' = payments empty_store @ [pay]
       \<and> pay_user_id pay = usr_id usr
       \<and> pay_status pay = COMPLETED
       \<and> s \<in> set (subscriptions st') \<and> sub_user_id s = usr_id usr
       \<and> sub_status s = ACTIVE
       \<and> (\<forall>ev\<in>set (webhookEvents st').
             we_external_payment_id ev = ''pay_ext_123'' \<and> we_event_type ev = ''payment.success'' \<longrightarrow>
             we_status ev = PROCESSED \<and> we_processed_at ev = Some clock))"
proof -
  have a: "email (validPayload\<lparr>email := None\<rparr>) = None"
      "webhookEvents empty_store = []" "payments empty_store = []"
      "is_positive_integer (amount (validPayload\<lparr>email := None\<rparr>))"
    by (simp_all add: empty_store_def is_positive_integer_def validPayload_def)
  have b: "processWebhook no_faults clock empty_store (validPayload\<lparr>email := None\<rparr>)
       = (Inr \<lparr>success = True, isDuplicate = False, paymentId = Some 2,
               subscriptionId = Some 3, error = None\<rparr>,
          \<lparr>webhookEvents =
             [\<lparr>we_id = 0, we_external_payment_id = ''pay_ext_123'',
               we_event_type = ''payment.success'', we_status = PROCESSED,
               we_payload = validPayload\<lparr>email := None\<rparr>,
               we_processed_at = Some 1700000000000\<rparr>],
           users = [\<lparr>usr_id = 1, usr_email = ''user-1700000000000@pending.com''\<rparr>],
           payments =
             [\<lparr>pay_id = 2, pay_user_id = 1, pay_external_payment_id = ''pay_ext_123'',
               pay_amount = 999, pay_currency = ''USD'', pay_plan_type = ''monthly'',
               pay_payment_method = None, pay_provider = None, pay_status = COMPLETED,
               pay_metadata = None\<rparr>],
           subscriptions =
             [\<lparr>sub_id = 3, sub_user_id = 1, sub_plan_type = ''monthly'', sub_status = ACTIVE,
               sub_started_at = 1700000000000, sub_expires_at = Some 1702592000000\<rparr>],
           next_id = 4\<rparr>)"
    by (simp add: run_defs empty_store_def)
  have d: "\<exists>r st' ds usr pay s.
         processWebhook no_faults clock empty_store (validPayload\<lparr>email := None\<rparr>) = (Inr r, st')
       \<and> success r \<and> \<not> isDuplicate r
       \<and> paymentId r = Some (pay_id pay) \<and> subscriptionId r = Some (sub_id s)
       \<and> ds = toString_nat clock \<and> ds \<noteq> [] \<and> (\<forall>c\<in>set ds. is_digit c)
       \<and> usr \<in> set (users st') \<and> usr_email usr = ''user-'' @ ds @ ''@pending.com''
       \<and> payments st' = payments empty_store @ [pay]
       \<and> pay_user_id pay = usr_id usr
       \<and> pay_status pay = COMPLETED
       \<and> s \<in> set (subscriptions st') \<and> sub_user_id s = usr_id usr
       \<and> sub_status s = ACTIVE
       \<and> (\<forall>ev\<in>set (webhookEvents st').
             we_external_payment_id ev = ''pay_ext_123'' \<and> we_event_type ev = ''payment.success'' \<longrightarrow>
             we_status ev = PROCESSED \<and> we_processed_at ev = Some clock)"
  proof -
    from missing_email_still_processed
            [of "validPayload\<lparr>email := None\<rparr>" no_faults empty_store clock]
    obtain r st' ds usr pay s where
      "processWebhook no_faults clock empty_store (validPayload\<lparr>email := None\<rparr>) = (Inr r, st')
       \<and> success r \<and> \<not> isDuplicate r
       \<and> paymentId r = Some (pay_id pay) \<and> subscriptionId r = Some (sub_id s)
       \<and> ds = toString_nat clock \<and> ds \<noteq> [] \<and> (\<forall>c\<in>set ds. is_digit c)
       \<and> usr \<in> set (users st') \<and> usr_email usr = ''user-'' @ ds @ ''@pending.com''
       \<and> payments st' = payments empty_store @ [pay]
       \<and> pay_user_id pay = usr_id usr
       \<and> pay_status pay = COMPLETED
       \<and> s \<in> set (subscriptions st') \<and> sub_user_id s = usr_id usr
       \<and> sub_status s = ACTIVE
       \<and> (\<forall>ev\<in>set (webhookEvents st').
             we_external_payment_id ev = ''pay_ext_123'' \<and> we_event_type ev = ''payment.success'' \<longrightarrow>
             we_status ev = PROCESSED \<and> we_processed_at ev = Some clock)"
      using a by (auto simp: no_faults_def empty_store_def validPayload_def)
    then show ?thesis by blast
  qed
  from a b d show ?thesis by simp
qed

end
